theory Spec2Isabelle
  imports Complex_Main "HOL-Library.Word"
begin

section \<open>The chunked upload of go-micloud (internal/file/file.go)\<close>

text \<open>
  The upload pipeline of \<^verbatim>\<open>file.go\<close> is embedded as pure functions over an explicit
  environment. Everything the Go code obtains from outside (the file system, the digest
  helpers of \<^verbatim>\<open>pkg/utils\<close>, \<^verbatim>\<open>api.postForm\<close>, the HTTP client, \<^verbatim>\<open>encoding/json\<close>) is a
  field of the record \<open>env\<close>; every function returns the list of effects it performed, in
  order, together with its outcome. An outcome is a returned value, a returned Go error,
  or a run-time panic.

  Conventions.
  \<^item> Go's \<^verbatim>\<open>int\<close> and \<^verbatim>\<open>int64\<close> are modelled as \<open>int\<close>: the embedding is of a 64-bit
    platform, where no product or difference of the code leaves the 64-bit range for
    file sizes below 4 GiB.
  \<^item> A JSON response is represented by the values that the \<^verbatim>\<open>gjson\<close> accessors of the code
    read from it: one record field per path and accessor
    (\<^verbatim>\<open>gjson.Get(resp, "result").String()\<close> is the field \<open>nego_result\<close>, and so on).
  \<^item> Each environment function is keyed by the arguments of the call it answers. The
    code issues every such call at most once per key (block reads and block transfers are
    keyed by offset and by block index), so this loses no behaviour.
  \<^item> Logging (\<^verbatim>\<open>zlog\<close>, \<^verbatim>\<open>fmt.Printf\<close>) has no influence on results and is left out.
\<close>

subsection \<open>Data\<close>

type_synonym byte = "8 word"

definition ChunkSize :: int where
  "ChunkSize = 4194304"

text \<open>
  Go errors. \<open>SizeTooBigError\<close> is the package variable of that name, \<open>errors_New\<close> an
  error made by \<^verbatim>\<open>errors.New\<close> with the given message, \<open>External\<close> an error value handed
  over by a collaborator (\<^verbatim>\<open>os\<close>, \<^verbatim>\<open>net/http\<close>, \<^verbatim>\<open>encoding/json\<close>, \<^verbatim>\<open>api.postForm\<close>).
\<close>

datatype go_error = SizeTooBigError | errors_New string | External string

datatype panic = IndexOutOfRange | NilDereference | NegativeMakeLen

datatype 'a outcome = Returns 'a | Fails go_error | Panics panic

text \<open>\<^verbatim>\<open>BlockInfo\<close>; the field \<^verbatim>\<open>Blob\<close> is the empty struct.\<close>

record BlockInfo =
  Blob :: unit
  Sha1 :: string
  Md5 :: string
  Size :: int

text \<open>
  The payloads sent to the service. The struct declarations are not part of
  \<^verbatim>\<open>file.go\<close>; the constructors below carry exactly the fields that \<^verbatim>\<open>file.go\<close> sets,
  unset fields having Go's zero value. A commit token is a \<^verbatim>\<open>map[string]string\<close>. An
  entry of \<^verbatim>\<open>NodeUrls\<close> is represented by its \<^verbatim>\<open>String()\<close>.
\<close>

datatype kss =
    UploadKss (BlockInfos: "BlockInfo list")
  | Kss (Stat: string) (NodeUrls: "string list") (SecureKey: string)
        (ContentCacheKey: string) (FileMeta: string)
        (CommitMetas: "(string \<rightharpoonup> string) list")

datatype storage =
    UploadStorage (StorageSize: int) (StorageSha1: string) (StorageKss: kss)
                  (UploadId: string) (Exists: bool)
  | UploadExistedStorage (UploadId: string) (Exists: bool)

record UploadContent =
  Name :: string
  Storage :: storage

record UploadJson =
  Content :: UploadContent

text \<open>An entry of \<^verbatim>\<open>data.storage.kss.block_metas\<close>, as \<^verbatim>\<open>uploadBlock\<close> reads it.\<close>

record block_entry =
  is_existed :: int      \<comment> \<open>\<^verbatim>\<open>m.Get("is_existed").Int()\<close>\<close>
  commit_meta :: string  \<comment> \<open>\<^verbatim>\<open>m.Get("commit_meta").String()\<close>\<close>
  block_meta :: string   \<comment> \<open>\<^verbatim>\<open>m.Get("block_meta").String()\<close>\<close>

text \<open>The response of the create-file-block request, as \<^verbatim>\<open>UploadFile\<close> reads it.\<close>

record nego_resp =
  nego_result :: string           \<comment> \<open>\<^verbatim>\<open>result\<close>, \<^verbatim>\<open>String()\<close>\<close>
  nego_description :: string      \<comment> \<open>\<^verbatim>\<open>description\<close>, \<^verbatim>\<open>String()\<close>\<close>
  storage_exists :: bool          \<comment> \<open>\<^verbatim>\<open>data.storage.exists\<close>, \<^verbatim>\<open>Bool()\<close>\<close>
  storage_uploadId :: string      \<comment> \<open>\<^verbatim>\<open>data.storage.uploadId\<close>, \<^verbatim>\<open>String()\<close>\<close>
  node_urls :: "string list"      \<comment> \<open>\<^verbatim>\<open>data.storage.kss.node_urls\<close>, \<^verbatim>\<open>Array()\<close>\<close>
  file_meta :: string             \<comment> \<open>\<^verbatim>\<open>data.storage.kss.file_meta\<close>, \<^verbatim>\<open>String()\<close>\<close>
  block_metas :: "block_entry list"  \<comment> \<open>\<^verbatim>\<open>data.storage.kss.block_metas\<close>, \<^verbatim>\<open>Array()\<close>\<close>
  secure_key :: string            \<comment> \<open>\<^verbatim>\<open>data.storage.kss.secure_key\<close>, \<^verbatim>\<open>String()\<close>\<close>
  contentCacheKey :: string       \<comment> \<open>\<^verbatim>\<open>data.storage.kss.contentCacheKey\<close>, \<^verbatim>\<open>String()\<close>\<close>

text \<open>The body of a block transfer's response, as \<^verbatim>\<open>uploadBlock\<close> reads it.\<close>

record block_resp =
  stat :: string               \<comment> \<open>\<^verbatim>\<open>stat\<close>, \<^verbatim>\<open>String()\<close>\<close>
  resp_commit_meta :: string   \<comment> \<open>\<^verbatim>\<open>commit_meta\<close>, \<^verbatim>\<open>String()\<close>\<close>

text \<open>The body of the final commit's response, as \<^verbatim>\<open>createFile\<close> reads it.\<close>

record commit_resp =
  result :: string        \<comment> \<open>\<^verbatim>\<open>result\<close>, \<^verbatim>\<open>String()\<close>\<close>
  description :: string   \<comment> \<open>\<^verbatim>\<open>description\<close>, \<^verbatim>\<open>String()\<close>\<close>
  data_id :: string       \<comment> \<open>\<^verbatim>\<open>data.id\<close>, \<^verbatim>\<open>String()\<close>\<close>

text \<open>
  What \<^verbatim>\<open>HttpClient.Do\<close> followed by \<^verbatim>\<open>ioutil.ReadAll(response.Body)\<close> gives: \<open>DoFailed\<close>
  when \<^verbatim>\<open>Do\<close> returns an error, \<open>BodyFailed\<close> when \<^verbatim>\<open>ReadAll\<close> returns an error together
  with the bytes read so far, \<open>BodyRead\<close> when both succeed.
\<close>

datatype 'r http_reply = DoFailed string | BodyFailed string 'r | BodyRead 'r

text \<open>The dynamic type of the \<^verbatim>\<open>interface{}\<close> argument of \<^verbatim>\<open>uploadBlock\<close>.\<close>

datatype iface = GjsonResult block_entry | OtherValue

text \<open>The effects recorded in a trace.\<close>

datatype event =
    is_HashPath: HashPath string
      \<comment> \<open>\<^verbatim>\<open>utils.FilePathHash(filePath, algo)\<close>\<close>
  | is_ChunkRead: ChunkRead int nat
      \<comment> \<open>\<^verbatim>\<open>Seek\<close> and \<^verbatim>\<open>Read\<close> in \<^verbatim>\<open>getFileBlocks\<close>: offset, buffer length\<close>
  | is_PostCreate: PostCreate string UploadJson
      \<comment> \<open>\<^verbatim>\<open>api.postForm(CreateFile, ...)\<close>: service token, data\<close>
  | is_BlockRead: BlockRead int nat
      \<comment> \<open>\<^verbatim>\<open>Seek\<close> and \<^verbatim>\<open>Read\<close> in \<^verbatim>\<open>uploadBlock\<close>: offset, buffer length\<close>
  | is_Transfer: Transfer nat string "byte list"
      \<comment> \<open>the block POST of \<^verbatim>\<open>uploadBlock\<close>: block index, URL, body\<close>
  | is_Commit: Commit string UploadJson
      \<comment> \<open>a call of \<^verbatim>\<open>createFile\<close>: parent id, data\<close>

record env =
  os_Stat :: "string + int"
    \<comment> \<open>\<^verbatim>\<open>os.Stat(filePath)\<close>: an error, or \<^verbatim>\<open>fileInfo.Size()\<close>\<close>
  FilePathHash :: "string \<Rightarrow> string"
    \<comment> \<open>\<^verbatim>\<open>utils.FilePathHash(filePath, algo)\<close>\<close>
  FileHash :: "byte list \<Rightarrow> string \<Rightarrow> string"
    \<comment> \<open>\<^verbatim>\<open>utils.FileHash(strings.NewReader(string(b)), algo)\<close>\<close>
  os_OpenFile :: "string option"
    \<comment> \<open>the error of \<^verbatim>\<open>os.OpenFile\<close> in \<^verbatim>\<open>getFileBlocks\<close>, if any\<close>
  chunk_Read :: "int \<Rightarrow> nat \<Rightarrow> string + byte list"
    \<comment> \<open>\<^verbatim>\<open>file.Seek(offset, 0)\<close> then \<^verbatim>\<open>file.Read(b)\<close> in \<^verbatim>\<open>getFileBlocks\<close>, by offset and
        \<^verbatim>\<open>len(b)\<close>: an error, or the bytes read\<close>
  ServiceToken :: string
  postForm :: "string \<Rightarrow> UploadJson \<Rightarrow> string + nego_resp"
    \<comment> \<open>\<^verbatim>\<open>api.postForm(CreateFile, ...)\<close>, by service token and data\<close>
  os_Open :: "string option"
    \<comment> \<open>the error of \<^verbatim>\<open>os.Open\<close> in \<^verbatim>\<open>UploadFile\<close>, if any\<close>
  file_Stat :: "nat \<Rightarrow> string + int"
    \<comment> \<open>\<^verbatim>\<open>file.Stat()\<close> in \<^verbatim>\<open>uploadBlock\<close>, by block index: an error, or the size\<close>
  block_Read :: "int \<Rightarrow> nat \<Rightarrow> string + byte list"
    \<comment> \<open>\<^verbatim>\<open>file.Seek(offset, 0)\<close> then \<^verbatim>\<open>file.Read(fileBlock)\<close> in \<^verbatim>\<open>uploadBlock\<close>\<close>
  NewRequest_ok :: "string \<Rightarrow> bool"
    \<comment> \<open>whether \<^verbatim>\<open>http.NewRequest("POST", url, ...)\<close> returns a request for this URL\<close>
  block_Do :: "nat \<Rightarrow> string \<Rightarrow> byte list \<Rightarrow> block_resp http_reply"
    \<comment> \<open>the block POST, by block index, URL and body\<close>
  json_Marshal :: "UploadJson \<Rightarrow> string option"
    \<comment> \<open>the error of \<^verbatim>\<open>json.Marshal(data)\<close> in \<^verbatim>\<open>createFile\<close>, if any\<close>
  commit_Do :: "string \<Rightarrow> UploadJson \<Rightarrow> commit_resp http_reply"
    \<comment> \<open>the final POST of \<^verbatim>\<open>createFile\<close>, by parent id and data\<close>

subsection \<open>Helpers of the Go library\<close>

text \<open>
  \<^verbatim>\<open>path.Base\<close>: the last element of a path; trailing slashes are removed first; the empty
  path gives a dot, a path of slashes only gives a slash.
\<close>

definition path_Base :: "string \<Rightarrow> string" where
  "path_Base p =
     (if p = [] then ''.''
      else let q = rev (dropWhile (\<lambda>c. c = CHR ''/'') (rev p));
               r = rev (takeWhile (\<lambda>c. c \<noteq> CHR ''/'') (rev q))
           in if r = [] then ''/'' else r)"

text \<open>
  \<^verbatim>\<open>file.Read(b)\<close> overwrites the first bytes of the buffer with the bytes read and leaves
  the rest of the buffer as it was.
\<close>

definition read_into :: "byte list \<Rightarrow> byte list \<Rightarrow> byte list" where
  "read_into b data = take (length b) data @ drop (length data) b"

text \<open>Sequencing: run \<open>f\<close> on the value of a first computation, appending the traces.\<close>

definition and_then ::
  "event list \<times> 'a outcome \<Rightarrow> ('a \<Rightarrow> event list \<times> 'b outcome) \<Rightarrow> event list \<times> 'b outcome" where
  "and_then m f =
     (case m of
        (es, Returns a) \<Rightarrow> (case f a of (es', r) \<Rightarrow> (es @ es', r))
      | (es, Fails e) \<Rightarrow> (es, Fails e)
      | (es, Panics p) \<Rightarrow> (es, Panics p))"

subsection \<open>getFileBlocks\<close>

text \<open>
  The block count is \<^verbatim>\<open>int(math.Ceil(float64(size) / float64(ChunkSize)))\<close>. For sizes
  below \<open>2^53\<close> the conversion to \<^verbatim>\<open>float64\<close> is exact, and the division by
  \<open>ChunkSize = 2^22\<close> only changes the exponent, so the floating-point value is the exact
  quotient and \<^verbatim>\<open>math.Ceil\<close> gives its ceiling.
\<close>

definition block_count :: "int \<Rightarrow> int" where
  "block_count fileSize = \<lceil>real_of_int fileSize / real_of_int ChunkSize\<rceil>"

text \<open>
  The loop of \<^verbatim>\<open>getFileBlocks\<close>, with its state: the counter \<open>i\<close>, the buffer \<open>b\<close> (kept
  from one iteration to the next and only ever replaced by a shorter one), the blocks
  collected so far and the trace so far. A failed read takes the \<^verbatim>\<open>continue\<close> branch:
  the loop goes on with \<open>i + 1\<close> and appends nothing.
\<close>

function getFileBlocks_loop ::
  "env \<Rightarrow> int \<Rightarrow> int \<Rightarrow> int \<Rightarrow> byte list \<Rightarrow> BlockInfo list \<Rightarrow> event list
     \<Rightarrow> event list \<times> BlockInfo list outcome" where
  "getFileBlocks_loop env fileSize num i b blockInfos evs =
     (if i \<le> num then
        let offset = (i - 1) * ChunkSize in
        if int (length b) > fileSize - offset \<and> fileSize - offset < 0
        then (evs, Panics NegativeMakeLen)
        else
          let b1 = (if int (length b) > fileSize - offset
                    then replicate (nat (fileSize - offset)) 0 else b);
              evs1 = evs @ [ChunkRead offset (length b1)]
          in case chunk_Read env offset (length b1) of
               Inl err \<Rightarrow> getFileBlocks_loop env fileSize num (i + 1) b1 blockInfos evs1
             | Inr data \<Rightarrow>
                 let b2 = read_into b1 data;
                     blockInfo = \<lparr>Blob = (), Sha1 = FileHash env b2 ''sha1'',
                                  Md5 = FileHash env b2 ''md5'', Size = int (length b2)\<rparr>
                 in getFileBlocks_loop env fileSize num (i + 1) b2 (blockInfos @ [blockInfo]) evs1
      else (evs, Returns blockInfos))"
  by pat_completeness auto
termination
  by (relation "measure (\<lambda>(env, fileSize, num, i, b, blockInfos, evs). nat (num + 1 - i))") auto

declare getFileBlocks_loop.simps [simp del]

definition getFileBlocks :: "env \<Rightarrow> int \<Rightarrow> event list \<times> BlockInfo list outcome" where
  "getFileBlocks env fileSize =
     (let num = block_count fileSize in
      case os_OpenFile env of
        Some err \<Rightarrow> ([], Fails (External err))
      | None \<Rightarrow> getFileBlocks_loop env fileSize num 1 (replicate (nat ChunkSize) 0) [] [])"

subsection \<open>uploadBlock\<close>

text \<open>
  What \<^verbatim>\<open>uploadBlock\<close> keeps of the node's reply: it checks the error of \<^verbatim>\<open>Do\<close>, but it
  discards the error of \<^verbatim>\<open>ioutil.ReadAll\<close> and goes on with the bytes read.
\<close>

definition response_body :: "'r http_reply \<Rightarrow> string + 'r" where
  "response_body reply =
     (case reply of
        DoFailed err \<Rightarrow> Inl err
      | BodyFailed err r \<Rightarrow> Inr r
      | BodyRead r \<Rightarrow> Inr r)"

text \<open>Line 222: the address a block is posted to.\<close>

definition block_upload_url :: "string \<Rightarrow> string \<Rightarrow> string \<Rightarrow> string" where
  "block_upload_url apiNode fileMeta blockMeta =
     apiNode @ ''/upload_block_chunk?chunk_pos=0&file_meta='' @ fileMeta
       @ ''&block_meta='' @ blockMeta"

definition uploadBlock ::
  "env \<Rightarrow> nat \<Rightarrow> string \<Rightarrow> string \<Rightarrow> iface \<Rightarrow> event list \<times> (string \<rightharpoonup> string) outcome" where
  "uploadBlock env num apiNode fileMeta block =
     (case block of
        OtherValue \<Rightarrow> ([], Fails (errors_New ''block info error''))
      | GjsonResult m \<Rightarrow>
          if is_existed m = 1 then ([], Returns [''commit_meta'' \<mapsto> commit_meta m])
          else
            let uploadUrl = block_upload_url apiNode fileMeta (block_meta m)
            in case file_Stat env num of
                 Inl err \<Rightarrow> ([], Panics NilDereference)
               | Inr fsize \<Rightarrow>
                   let offset = int num * ChunkSize;
                       chunkSize = (if ChunkSize > fsize - offset then fsize - offset
                                    else ChunkSize)
                   in if chunkSize < 0 then ([], Panics NegativeMakeLen)
                      else
                        let fileBlock0 = replicate (nat chunkSize) (0 :: byte);
                            evs1 = [BlockRead offset (nat chunkSize)]
                        in case block_Read env offset (nat chunkSize) of
                             Inl err \<Rightarrow> (evs1, Fails (External err))
                           | Inr data \<Rightarrow>
                               let fileBlock = read_into fileBlock0 data in
                               if \<not> NewRequest_ok env uploadUrl
                               then (evs1, Panics NilDereference)
                               else
                                 let evs2 = evs1 @ [Transfer num uploadUrl fileBlock] in
                                 case response_body (block_Do env num uploadUrl fileBlock) of
                                   Inl err \<Rightarrow> (evs2, Fails (External err))
                                 | Inr r \<Rightarrow>
                                     if stat r \<noteq> ''BLOCK_COMPLETED''
                                     then (evs2, Fails (errors_New ''block not completed''))
                                     else (evs2,
                                           Returns [''commit_meta'' \<mapsto> resp_commit_meta r]))"

subsection \<open>createFile\<close>

definition createFile :: "env \<Rightarrow> string \<Rightarrow> UploadJson \<Rightarrow> event list \<times> string outcome" where
  "createFile env parentId data =
     (case json_Marshal env data of
        Some err \<Rightarrow> ([Commit parentId data], Fails (External err))
      | None \<Rightarrow>
          (case commit_Do env parentId data of
             DoFailed err \<Rightarrow> ([Commit parentId data], Fails (External err))
           | BodyFailed err r \<Rightarrow> ([Commit parentId data], Fails (External err))
           | BodyRead r \<Rightarrow>
               if result r \<noteq> ''ok''
               then ([Commit parentId data], Fails (errors_New (description r)))
               else ([Commit parentId data], Returns (data_id r))))"

subsection \<open>UploadFile\<close>

text \<open>The loop \<^verbatim>\<open>for k, block := range blockMetas\<close>, stopped by the first error.\<close>

fun upload_loop ::
  "env \<Rightarrow> string \<Rightarrow> string \<Rightarrow> nat \<Rightarrow> block_entry list \<Rightarrow> (string \<rightharpoonup> string) list
     \<Rightarrow> event list \<times> (string \<rightharpoonup> string) list outcome" where
  "upload_loop env apiNode fileMeta k [] commitMetas = ([], Returns commitMetas)"
| "upload_loop env apiNode fileMeta k (block # rest) commitMetas =
     and_then (uploadBlock env k apiNode fileMeta (GjsonResult block))
       (\<lambda>commitMeta. upload_loop env apiNode fileMeta (k + 1) rest (commitMetas @ [commitMeta]))"

text \<open>Lines 70 to 88: the block manifest, by chunking or as a single block.\<close>

definition file_blocks :: "env \<Rightarrow> int \<Rightarrow> string \<Rightarrow> event list \<times> BlockInfo list outcome" where
  "file_blocks env fileSize fileSha1 =
     (if fileSize > ChunkSize then
        (case getFileBlocks env fileSize of
           (es, Returns blockInfos) \<Rightarrow> (es, Returns blockInfos)
         | (es, Fails err) \<Rightarrow> (es, Fails (errors_New ''get file blocks failed''))
         | (es, Panics p) \<Rightarrow> (es, Panics p))
      else ([HashPath ''md5''],
            Returns [\<lparr>Blob = (), Sha1 = fileSha1, Md5 = FilePathHash env ''md5'',
                      Size = fileSize\<rparr>]))"

text \<open>Lines 117 to 179: what follows a negotiation response whose result is ok.\<close>

definition after_negotiation ::
  "env \<Rightarrow> string \<Rightarrow> string \<Rightarrow> int \<Rightarrow> string \<Rightarrow> nego_resp \<Rightarrow> event list \<times> string outcome" where
  "after_negotiation env parentId fileName fileSize fileSha1 resp =
     (if storage_exists resp then
        createFile env parentId
          \<lparr>Content = \<lparr>Name = fileName,
                       Storage = UploadExistedStorage (storage_uploadId resp) True\<rparr>\<rparr>
      else
        (case node_urls resp of
           [] \<Rightarrow> ([], Panics IndexOutOfRange)
         | apiNode # others \<Rightarrow>
             if apiNode = '''' then ([], Fails (errors_New ''no available url node''))
             else
               (case os_Open env of
                  Some err \<Rightarrow> ([], Fails (External err))
                | None \<Rightarrow>
                    and_then (upload_loop env apiNode (file_meta resp) 0 (block_metas resp) [])
                      (\<lambda>commitMetas.
                         createFile env parentId
                           \<lparr>Content = \<lparr>Name = fileName,
                              Storage = UploadStorage fileSize fileSha1
                                (Kss ''OK'' (node_urls resp) (secure_key resp)
                                   (contentCacheKey resp) (file_meta resp) commitMetas)
                                (storage_uploadId resp) False\<rparr>\<rparr>))))"

text \<open>Lines 110 to 179: what \<^verbatim>\<open>UploadFile\<close> does with the reply of \<^verbatim>\<open>api.postForm\<close>.\<close>

definition negotiation_outcome ::
  "env \<Rightarrow> string \<Rightarrow> string \<Rightarrow> int \<Rightarrow> string \<Rightarrow> string + nego_resp
     \<Rightarrow> event list \<times> string outcome" where
  "negotiation_outcome env parentId fileName fileSize fileSha1 reply =
     (case reply of
        Inl err \<Rightarrow> ([], Fails (External err))
      | Inr resp \<Rightarrow>
          if nego_result resp \<noteq> ''ok''
          then ([], Fails (errors_New (''create file block failed, error: ''
                                        @ nego_description resp)))
          else after_negotiation env parentId fileName fileSize fileSha1 resp)"

text \<open>Lines 89 to 100: the manifest sent with the negotiation request.\<close>

definition upload_manifest :: "string \<Rightarrow> int \<Rightarrow> string \<Rightarrow> BlockInfo list \<Rightarrow> UploadJson" where
  "upload_manifest fileName fileSize fileSha1 blockInfos =
     \<lparr>Content = \<lparr>Name = fileName,
                  Storage = UploadStorage fileSize fileSha1 (UploadKss blockInfos) [] False\<rparr>\<rparr>"

text \<open>Lines 101 to 109: the negotiation request.\<close>

definition negotiate ::
  "env \<Rightarrow> string \<Rightarrow> string \<Rightarrow> int \<Rightarrow> string \<Rightarrow> BlockInfo list \<Rightarrow> event list \<times> string outcome" where
  "negotiate env parentId fileName fileSize fileSha1 blockInfos =
     (let uploadJson = upload_manifest fileName fileSize fileSha1 blockInfos
      in and_then ([PostCreate (ServiceToken env) uploadJson], Returns ())
           (\<lambda>_. negotiation_outcome env parentId fileName fileSize fileSha1
                  (postForm env (ServiceToken env) uploadJson)))"

definition UploadFile :: "env \<Rightarrow> string \<Rightarrow> string \<Rightarrow> event list \<times> string outcome" where
  "UploadFile env filePath parentId =
     (case os_Stat env of
        Inl err \<Rightarrow> ([], Fails (External err))
      | Inr fsize \<Rightarrow>
          let fileName = path_Base filePath in
          if fsize = 0 \<or> fsize \<ge> 4 * 1024 * 1024 * 1024 then ([], Fails SizeTooBigError)
          else
            let fileSize = fsize;
                fileSha1 = FilePathHash env ''sha1''
            in and_then ([HashPath ''sha1''], Returns ())
                 (\<lambda>_. and_then (file_blocks env fileSize fileSha1)
                         (negotiate env parentId fileName fileSize fileSha1)))"

subsection \<open>Sample environments\<close>

text \<open>
  A negotiation response that asks for one block to be transferred to the node
  \<^verbatim>\<open>https://node\<close>.
\<close>

definition sample_nego :: nego_resp where
  "sample_nego =
     \<lparr>nego_result = ''ok'', nego_description = [], storage_exists = False,
      storage_uploadId = ''up-1'', node_urls = [''https://node''], file_meta = ''fm'',
      block_metas = [\<lparr>is_existed = 0, commit_meta = [], block_meta = ''bm0''\<rparr>],
      secure_key = ''sk'', contentCacheKey = ''cck''\<rparr>"

text \<open>
  A file of five bytes on a service where every call succeeds: one block is transferred
  and the commit returns the identifier \<^verbatim>\<open>file-1\<close>.
\<close>

definition sample_env :: env where
  "sample_env =
     \<lparr>os_Stat = Inr 5,
      FilePathHash = (\<lambda>algo. algo @ '':file''),
      FileHash = (\<lambda>b algo. algo @ '':block''),
      os_OpenFile = None,
      chunk_Read = (\<lambda>offset n. Inr (replicate n 1)),
      ServiceToken = ''token'',
      postForm = (\<lambda>token data. Inr sample_nego),
      os_Open = None,
      file_Stat = (\<lambda>k. Inr 5),
      block_Read = (\<lambda>offset n. Inr (replicate n 1)),
      NewRequest_ok = (\<lambda>url. True),
      block_Do = (\<lambda>k url body. BodyRead \<lparr>stat = ''BLOCK_COMPLETED'', resp_commit_meta = ''cm''\<rparr>),
      json_Marshal = (\<lambda>data. None),
      commit_Do = (\<lambda>parentId data.
                     BodyRead \<lparr>result = ''ok'', description = [], data_id = ''file-1''\<rparr>)\<rparr>"

text \<open>
  A file of \<open>ChunkSize + 1\<close> bytes, for which the service asks for two blocks.
\<close>

definition sample_env2 :: env where
  "sample_env2 =
     sample_env\<lparr>os_Stat := Inr 4194305,
                file_Stat := (\<lambda>k. Inr 4194305),
                postForm := (\<lambda>token data. Inr (sample_nego\<lparr>block_metas :=
                   [\<lparr>is_existed = 0, commit_meta = [], block_meta = ''bm0''\<rparr>,
                    \<lparr>is_existed = 0, commit_meta = [], block_meta = ''bm1''\<rparr>]\<rparr>))\<rparr>"

text \<open>
  The same file when the first read of the chunking pass fails and the second succeeds.
\<close>

definition sample_env_read_failure :: env where
  "sample_env_read_failure =
     sample_env2\<lparr>chunk_Read :=
       (\<lambda>offset n. if offset = 0 then Inl ''input/output error'' else Inr (replicate n 1))\<rparr>"

text \<open>
  The same file on a service that says that both blocks exist already, with the commit
  tokens \<^verbatim>\<open>c0\<close> and \<^verbatim>\<open>c1\<close>.
\<close>

definition sample_nego_existed :: nego_resp where
  "sample_nego_existed =
     sample_nego\<lparr>block_metas :=
       [\<lparr>is_existed = 1, commit_meta = ''c0'', block_meta = []\<rparr>,
        \<lparr>is_existed = 1, commit_meta = ''c1'', block_meta = []\<rparr>]\<rparr>"

definition sample_env_existed :: env where
  "sample_env_existed = sample_env2\<lparr>postForm := (\<lambda>token data. Inr sample_nego_existed)\<rparr>"


section \<open>Facts about the embedding\<close>

subsection \<open>Chunk arithmetic\<close>

lemma length_read_into: "length (read_into b data) = length b"
  by (simp add: read_into_def)






subsection \<open>Traces\<close>

lemma and_then_fst_snd:
  "and_then (es, Returns a) f = (es @ fst (f a), snd (f a))"
  "and_then (es, Fails e) f = (es, Fails e)"
  "and_then (es, Panics p) f = (es, Panics p)"
  by (simp_all add: and_then_def split: prod.splits)

lemma uploadBlock_events:
  "e \<in> set (fst (uploadBlock env k node fm blk)) \<Longrightarrow>
     is_BlockRead e \<or> (\<exists>u b. e = Transfer k u b)"
  by (auto simp: uploadBlock_def response_body_def Let_def
        split: iface.splits sum.splits if_splits http_reply.splits)

lemma upload_loop_events:
  "e \<in> set (fst (upload_loop env node fm k blocks acc)) \<Longrightarrow>
     is_BlockRead e \<or> (\<exists>n u b. e = Transfer n u b \<and> k \<le> n \<and> n < k + length blocks)"
proof (induction blocks arbitrary: k acc)
  case Nil
  then show ?case by simp
next
  case (Cons blk rest)
  obtain es r where ub: "uploadBlock env k node fm (GjsonResult blk) = (es, r)"
    by (cases "uploadBlock env k node fm (GjsonResult blk)")
  have here: "\<And>e. e \<in> set es \<Longrightarrow> is_BlockRead e \<or> (\<exists>u b. e = Transfer k u b)"
    using uploadBlock_events[of _ env k node fm "GjsonResult blk"] ub by simp
  show ?case
  proof (cases r)
    case (Returns cm)
    with Cons.prems ub have "e \<in> set es \<or> e \<in> set (fst (upload_loop env node fm (k + 1) rest (acc @ [cm])))"
      by (simp add: and_then_fst_snd)
    then show ?thesis
    proof
      assume "e \<in> set es"
      from here[OF this] show ?thesis by auto
    next
      assume "e \<in> set (fst (upload_loop env node fm (k + 1) rest (acc @ [cm])))"
      from Cons.IH[OF this] show ?thesis by auto
    qed
  next
    case (Fails x)
    with Cons.prems ub have "e \<in> set es" by (simp add: and_then_fst_snd)
    from here[OF this] show ?thesis by auto
  next
    case (Panics x)
    with Cons.prems ub have "e \<in> set es" by (simp add: and_then_fst_snd)
    from here[OF this] show ?thesis by auto
  qed
qed

lemma createFile_events: "fst (createFile env pid d) = [Commit pid d]"
  by (simp add: createFile_def split: option.splits http_reply.splits)

lemma after_negotiation_events:
  "e \<in> set (fst (after_negotiation env pid name s sha resp)) \<Longrightarrow>
     is_BlockRead e \<or> is_Transfer e \<or> is_Commit e"
proof -
  assume a: "e \<in> set (fst (after_negotiation env pid name s sha resp))"
  show ?thesis
  proof (cases "storage_exists resp")
    case True
    with a show ?thesis by (simp add: after_negotiation_def createFile_events)
  next
    case False
    show ?thesis
    proof (cases "node_urls resp")
      case Nil
      with a False show ?thesis by (simp add: after_negotiation_def)
    next
      case (Cons node others)
      show ?thesis
      proof (cases "node = [] \<or> os_Open env \<noteq> None")
        case True
        with a False Cons show ?thesis
          by (cases "node = []") (auto simp: after_negotiation_def)
      next
        case ok: False
        obtain es r where ul: "upload_loop env node (file_meta resp) 0 (block_metas resp) [] = (es, r)"
          by (cases "upload_loop env node (file_meta resp) 0 (block_metas resp) []")
        have loop: "is_BlockRead e' \<or> is_Transfer e'" if "e' \<in> set es" for e'
          using upload_loop_events[of e' env node "file_meta resp" 0 "block_metas resp" "[]"] ul that
          by auto
        from a False Cons ok ul have "e \<in> set es \<or> is_Commit e"
          by (cases r) (auto simp: after_negotiation_def and_then_fst_snd createFile_events)
        with loop[of e] show ?thesis by auto
      qed
    qed
  qed
qed

lemma negotiation_outcome_events:
  "e \<in> set (fst (negotiation_outcome env pid name s sha reply)) \<Longrightarrow>
     is_BlockRead e \<or> is_Transfer e \<or> is_Commit e"
  using after_negotiation_events[of e env pid name s sha]
  by (auto simp: negotiation_outcome_def split: sum.splits if_splits)

lemma getFileBlocks_loop_events:
  "n = nat (num + 1 - i) \<Longrightarrow> \<forall>e\<in>set evs. is_ChunkRead e \<Longrightarrow>
     \<forall>e\<in>set (fst (getFileBlocks_loop env s num i b acc evs)). is_ChunkRead e"
proof (induction n arbitrary: i b acc evs)
  case 0
  then have "\<not> i \<le> num" by simp
  with 0 show ?case by (subst getFileBlocks_loop.simps) simp
next
  case (Suc n)
  then have le: "i \<le> num" by simp
  have n: "n = nat (num + 1 - (i + 1))" using Suc.prems(1) by simp
  define offset where "offset = (i - 1) * ChunkSize"
  define b1 where "b1 = (if int (length b) > s - offset
                    then replicate (nat (s - offset)) 0 else b)"
  define evs1 where "evs1 = evs @ [ChunkRead offset (length b1)]"
  have evs1: "\<forall>e\<in>set evs1. is_ChunkRead e"
    using Suc.prems(2) by (simp add: evs1_def)
  note IH = Suc.IH[OF n evs1]
  show ?case
  proof (cases "int (length b) > s - offset \<and> s - offset < 0")
    case True
    then show ?thesis
      using le Suc.prems(2)
      by (subst getFileBlocks_loop.simps) (simp add: Let_def offset_def[symmetric])
  next
    case False
    show ?thesis
    proof (cases "chunk_Read env offset (length b1)")
      case (Inl err)
      have "getFileBlocks_loop env s num i b acc evs
          = getFileBlocks_loop env s num (i + 1) b1 acc evs1"
        using le False Inl
        by (subst getFileBlocks_loop.simps)
           (auto simp: Let_def offset_def[symmetric] b1_def[symmetric] evs1_def[symmetric])
      then show ?thesis using IH[of b1 acc] by simp
    next
      case (Inr d)
      define b2 where "b2 = read_into b1 d"
      define bi where "bi = \<lparr>Blob = (), Sha1 = FileHash env b2 ''sha1'',
                                  Md5 = FileHash env b2 ''md5'', Size = int (length b2)\<rparr>"
      have "getFileBlocks_loop env s num i b acc evs
          = getFileBlocks_loop env s num (i + 1) b2 (acc @ [bi]) evs1"
        using le False Inr
        by (subst getFileBlocks_loop.simps)
           (auto simp: Let_def offset_def[symmetric] b1_def[symmetric] evs1_def[symmetric]
              b2_def[symmetric] bi_def[symmetric])
      then show ?thesis using IH[of b2 "acc @ [bi]"] by simp
    qed
  qed
qed

lemma file_blocks_events:
  "e \<in> set (fst (file_blocks env s sha)) \<Longrightarrow> is_HashPath e \<or> is_ChunkRead e"
  using getFileBlocks_loop_events[of "nat (block_count s + 1 - 1)" "block_count s" 1 "[]" env s
      "replicate (nat ChunkSize) 0" "[]"]
  by (auto simp: file_blocks_def getFileBlocks_def Let_def split: if_splits option.splits prod.splits outcome.splits)



lemma UploadFile_posted:
  assumes "PostCreate tok uj \<in> set (fst (UploadFile env fp pid))"
  shows "\<exists>s pre bs. os_Stat env = Inr s \<and> s \<noteq> 0 \<and> s < 4 * 1024 * 1024 * 1024
      \<and> file_blocks env s (FilePathHash env ''sha1'') = (pre, Returns bs)
      \<and> tok = ServiceToken env
      \<and> uj = upload_manifest (path_Base fp) s (FilePathHash env ''sha1'') bs
      \<and> fst (UploadFile env fp pid) = HashPath ''sha1'' # pre @ [PostCreate tok uj]
           @ fst (negotiation_outcome env pid (path_Base fp) s (FilePathHash env ''sha1'')
                    (postForm env tok uj))
      \<and> snd (UploadFile env fp pid)
           = snd (negotiation_outcome env pid (path_Base fp) s (FilePathHash env ''sha1'')
                    (postForm env tok uj))"
proof (cases "os_Stat env")
  case (Inl err)
  with assms show ?thesis by (simp add: UploadFile_def)
next
  case (Inr s)
  show ?thesis
  proof (cases "s = 0 \<or> s \<ge> 4 * 1024 * 1024 * 1024")
    case True
    with assms Inr show ?thesis by (auto simp: UploadFile_def)
  next
    case False
    define sha where "sha = FilePathHash env ''sha1''"
    obtain pre r where fb: "file_blocks env s sha = (pre, r)"
      by (cases "file_blocks env s sha")
    have pre: "\<And>e. e \<in> set pre \<Longrightarrow> is_HashPath e \<or> is_ChunkRead e"
      using file_blocks_events[of _ env s sha] fb by simp
    show ?thesis
    proof (cases r)
      case (Returns bs)
      define uj' where "uj' = upload_manifest (path_Base fp) s sha bs"
      define R where "R = negotiation_outcome env pid (path_Base fp) s sha
                    (postForm env (ServiceToken env) uj')"
      have U: "UploadFile env fp pid
          = (HashPath ''sha1'' # pre @ [PostCreate (ServiceToken env) uj'] @ fst R, snd R)"
        using Inr False fb Returns
        by (simp add: UploadFile_def Let_def and_then_fst_snd negotiate_def sha_def[symmetric]
              upload_manifest_def[symmetric] uj'_def[symmetric] R_def[symmetric])
      have R: "\<And>e. e \<in> set (fst R) \<Longrightarrow> is_BlockRead e \<or> is_Transfer e \<or> is_Commit e"
        unfolding R_def by (rule negotiation_outcome_events)
      from assms U have "PostCreate tok uj \<in> set pre \<or> PostCreate tok uj = PostCreate (ServiceToken env) uj'
          \<or> PostCreate tok uj \<in> set (fst R)"
        by auto
      then have eq: "tok = ServiceToken env \<and> uj = uj'"
        using pre[of "PostCreate tok uj"] R[of "PostCreate tok uj"] by auto
      show ?thesis
        using Inr False fb Returns U eq
        by (auto simp: sha_def uj'_def R_def)
    next
      case (Fails x)
      with assms Inr False fb pre[of "PostCreate tok uj"] show ?thesis
        by (auto simp: UploadFile_def Let_def and_then_fst_snd sha_def[symmetric])
    next
      case (Panics x)
      with assms Inr False fb pre[of "PostCreate tok uj"] show ?thesis
        by (auto simp: UploadFile_def Let_def and_then_fst_snd sha_def[symmetric])
    qed
  qed
qed

subsection \<open>Errors\<close>

lemma and_then_not_stb:
  "snd m \<noteq> Fails SizeTooBigError \<Longrightarrow> (\<And>a. snd (f a) \<noteq> Fails SizeTooBigError)
     \<Longrightarrow> snd (and_then m f) \<noteq> Fails SizeTooBigError"
  by (cases m; cases "snd m") (simp_all add: and_then_fst_snd)

lemma uploadBlock_not_stb: "snd (uploadBlock env k node fm blk) \<noteq> Fails SizeTooBigError"
  by (auto simp: uploadBlock_def response_body_def Let_def
        split: iface.splits sum.splits if_splits http_reply.splits)

lemma upload_loop_not_stb:
  "snd (upload_loop env node fm k blocks acc) \<noteq> Fails SizeTooBigError"
  by (induction blocks arbitrary: k acc) (simp_all add: and_then_not_stb uploadBlock_not_stb)

lemma createFile_not_stb: "snd (createFile env pid d) \<noteq> Fails SizeTooBigError"
  by (simp add: createFile_def split: option.splits http_reply.splits)

lemma after_negotiation_not_stb:
  "snd (after_negotiation env pid name s sha resp) \<noteq> Fails SizeTooBigError"
  by (simp add: after_negotiation_def and_then_not_stb upload_loop_not_stb createFile_not_stb
        split: list.splits option.splits)

lemma negotiation_outcome_not_stb:
  "snd (negotiation_outcome env pid name s sha reply) \<noteq> Fails SizeTooBigError"
  by (simp add: negotiation_outcome_def after_negotiation_not_stb split: sum.splits)

lemma negotiate_not_stb:
  "snd (negotiate env pid name s sha bs) \<noteq> Fails SizeTooBigError"
  by (simp add: negotiate_def Let_def and_then_not_stb negotiation_outcome_not_stb)

lemma file_blocks_not_stb: "snd (file_blocks env s sha) \<noteq> Fails SizeTooBigError"
  by (simp add: file_blocks_def split: prod.splits outcome.splits)


lemma file_blocks_pre:
  "file_blocks env s sha = (pre, r) \<Longrightarrow> e \<in> set pre \<Longrightarrow> is_HashPath e \<or> is_ChunkRead e"
  using file_blocks_events[of e env s sha] by simp

lemma file_blocks_pre_filter:
  assumes "file_blocks env s sha = (pre, r)"
  shows "filter is_Commit pre = []" and "filter is_Transfer pre = []"
    and "filter is_PostCreate pre = []"
proof -
  have "\<not> is_Commit e \<and> \<not> is_Transfer e \<and> \<not> is_PostCreate e" if "e \<in> set pre" for e
    using file_blocks_pre[OF assms that] by (cases e) auto
  then show "filter is_Commit pre = []" and "filter is_Transfer pre = []"
    and "filter is_PostCreate pre = []"
    by (simp_all add: filter_empty_conv)
qed

lemma upload_loop_existed:
  "\<forall>m\<in>set blocks. is_existed m = 1 \<Longrightarrow>
     upload_loop env node fm k blocks acc
       = ([], Returns (acc @ map (\<lambda>m. [''commit_meta'' \<mapsto> commit_meta m]) blocks))"
  by (induction blocks arbitrary: k acc) (simp_all add: uploadBlock_def and_then_fst_snd)

lemma block_count_two: "block_count 4194305 = 2"
  by (simp add: block_count_def ChunkSize_def)

lemma getFileBlocks_two_blocks:
  assumes "os_OpenFile env = None"
    and "chunk_Read env 0 4194304 = Inr d0"
    and "chunk_Read env 4194304 1 = Inr d1"
  shows "getFileBlocks env 4194305
      = ([ChunkRead 0 4194304, ChunkRead 4194304 1],
         Returns [\<lparr>Blob = (), Sha1 = FileHash env (read_into (replicate 4194304 0) d0) ''sha1'',
                    Md5 = FileHash env (read_into (replicate 4194304 0) d0) ''md5'',
                    Size = 4194304\<rparr>,
                  \<lparr>Blob = (), Sha1 = FileHash env (read_into [0] d1) ''sha1'',
                    Md5 = FileHash env (read_into [0] d1) ''md5'', Size = 1\<rparr>])"
  using assms unfolding getFileBlocks_def block_count_two
  apply (simp add: ChunkSize_def)
  apply (subst getFileBlocks_loop.simps)
  apply (simp add: ChunkSize_def Let_def length_read_into)
  apply (subst getFileBlocks_loop.simps)
  apply (simp add: ChunkSize_def Let_def length_read_into)
  apply (subst getFileBlocks_loop.simps)
  apply simp
  done

lemma getFileBlocks_first_read_fails:
  assumes "os_OpenFile env = None"
    and "chunk_Read env 0 4194304 = Inl err"
    and "chunk_Read env 4194304 1 = Inr d1"
  shows "getFileBlocks env 4194305
      = ([ChunkRead 0 4194304, ChunkRead 4194304 1],
         Returns [\<lparr>Blob = (), Sha1 = FileHash env (read_into [0] d1) ''sha1'',
                    Md5 = FileHash env (read_into [0] d1) ''md5'', Size = 1\<rparr>])"
  using assms unfolding getFileBlocks_def block_count_two
  apply (simp add: ChunkSize_def)
  apply (subst getFileBlocks_loop.simps)
  apply (simp add: ChunkSize_def Let_def length_read_into)
  apply (subst getFileBlocks_loop.simps)
  apply (simp add: ChunkSize_def Let_def length_read_into)
  apply (subst getFileBlocks_loop.simps)
  apply simp
  done




lemma sample2_trace:
  assumes st: "os_Stat env = Inr 4194305" and op: "os_OpenFile env = None"
    and r0: "chunk_Read env 0 4194304 = Inr d0" and r1: "chunk_Read env 4194304 1 = Inr d1"
    and fh: "FileHash env = (\<lambda>b algo. algo @ '':block'')"
    and fp: "FilePathHash env = (\<lambda>algo. algo @ '':file'')"
    and tk: "ServiceToken env = ''token''"
  shows "UploadFile env ''/tmp/a.bin'' parentId
     = and_then ([HashPath ''sha1'', ChunkRead 0 4194304, ChunkRead 4194304 1,
           PostCreate ''token'' (upload_manifest ''a.bin'' 4194305 ''sha1:file''
             [\<lparr>Blob = (), Sha1 = ''sha1:block'', Md5 = ''md5:block'', Size = 4194304\<rparr>,
              \<lparr>Blob = (), Sha1 = ''sha1:block'', Md5 = ''md5:block'', Size = 1\<rparr>])], Returns ())
         (\<lambda>_. negotiation_outcome env parentId ''a.bin'' 4194305 ''sha1:file''
            (postForm env ''token'' (upload_manifest ''a.bin'' 4194305 ''sha1:file''
             [\<lparr>Blob = (), Sha1 = ''sha1:block'', Md5 = ''md5:block'', Size = 4194304\<rparr>,
              \<lparr>Blob = (), Sha1 = ''sha1:block'', Md5 = ''md5:block'', Size = 1\<rparr>])))"
proof -
  have pb: "path_Base ''/tmp/a.bin'' = ''a.bin''" by (simp add: path_Base_def)
  show ?thesis
    by (simp add: UploadFile_def st pb file_blocks_def ChunkSize_def
        getFileBlocks_two_blocks[OF op r0 r1] fh fp tk negotiate_def Let_def and_then_def
        split: prod.splits)
qed

lemma sample2_posted:
  assumes st: "os_Stat env = Inr 4194305" and op: "os_OpenFile env = None"
    and r0: "chunk_Read env 0 4194304 = Inr d0" and r1: "chunk_Read env 4194304 1 = Inr d1"
    and fh: "FileHash env = (\<lambda>b algo. algo @ '':block'')"
    and fp: "FilePathHash env = (\<lambda>algo. algo @ '':file'')"
    and tk: "ServiceToken env = ''token''"
  shows "PostCreate ''token'' (upload_manifest ''a.bin'' 4194305 ''sha1:file''
             [\<lparr>Blob = (), Sha1 = ''sha1:block'', Md5 = ''md5:block'', Size = 4194304\<rparr>,
              \<lparr>Blob = (), Sha1 = ''sha1:block'', Md5 = ''md5:block'', Size = 1\<rparr>])
         \<in> set (fst (UploadFile env ''/tmp/a.bin'' parentId))"
  by (simp add: sample2_trace[OF assms] and_then_fst_snd)




section \<open>The claims\<close>

text \<open>
  C3. When \<^verbatim>\<open>os.Stat\<close> reports a size of 0, or of \<open>4*1024*1024*1024\<close> bytes or more,
  \<^verbatim>\<open>UploadFile\<close> fails with \<open>SizeTooBigError\<close> and its trace is empty: no digest has
  been computed. For every size strictly between 0 and 4 GiB the check passes: the
  whole-file SHA-1 is the first effect, and whatever the outcome is, it is not
  \<open>SizeTooBigError\<close>.
\<close>

theorem UploadFile_size_check:
  assumes "os_Stat env = Inr fsize"
  shows "(fsize = 0 \<or> fsize \<ge> 4 * 1024 * 1024 * 1024
            \<longrightarrow> UploadFile env filePath parentId = ([], Fails SizeTooBigError))
       \<and> (0 < fsize \<and> fsize < 4 * 1024 * 1024 * 1024
            \<longrightarrow> (\<exists>rest. fst (UploadFile env filePath parentId) = HashPath ''sha1'' # rest)
                \<and> snd (UploadFile env filePath parentId) \<noteq> Fails SizeTooBigError)"
proof (intro conjI impI)
  assume "fsize = 0 \<or> fsize \<ge> 4 * 1024 * 1024 * 1024"
  with assms show "UploadFile env filePath parentId = ([], Fails SizeTooBigError)"
    by (auto simp: UploadFile_def)
next
  assume ok: "0 < fsize \<and> fsize < 4 * 1024 * 1024 * 1024"
  define rest where "rest = and_then (file_blocks env fsize (FilePathHash env ''sha1''))
     (negotiate env parentId (path_Base filePath) fsize (FilePathHash env ''sha1''))"
  have U: "UploadFile env filePath parentId = (HashPath ''sha1'' # fst rest, snd rest)"
    using assms ok by (simp add: UploadFile_def Let_def and_then_fst_snd rest_def)
  show "\<exists>rest. fst (UploadFile env filePath parentId) = HashPath ''sha1'' # rest"
    using U by simp
  have "snd rest \<noteq> Fails SizeTooBigError"
    unfolding rest_def by (intro and_then_not_stb file_blocks_not_stb negotiate_not_stb)
  then show "snd (UploadFile env filePath parentId) \<noteq> Fails SizeTooBigError"
    using U by simp
qed

theorem UploadFile_size_check_witness:
  "UploadFile (sample_env\<lparr>os_Stat := Inr 0\<rparr>) ''/tmp/a.bin'' ''0'' = ([], Fails SizeTooBigError)
   \<and> UploadFile (sample_env\<lparr>os_Stat := Inr 4294967296\<rparr>) ''/tmp/a.bin'' ''0''
       = ([], Fails SizeTooBigError)
   \<and> (\<exists>rest. fst (UploadFile sample_env ''/tmp/a.bin'' ''0'') = HashPath ''sha1'' # rest)
   \<and> snd (UploadFile sample_env ''/tmp/a.bin'' ''0'') \<noteq> Fails SizeTooBigError"
proof -
  have a: "os_Stat (sample_env\<lparr>os_Stat := Inr 0\<rparr>) = Inr 0" by simp
  have b: "os_Stat (sample_env\<lparr>os_Stat := Inr 4294967296\<rparr>) = Inr 4294967296" by simp
  have c: "os_Stat sample_env = Inr 5" by (simp add: sample_env_def)
  show ?thesis
    using UploadFile_size_check[OF a, of "''/tmp/a.bin''" "''0''"]
      UploadFile_size_check[OF b, of "''/tmp/a.bin''" "''0''"]
      UploadFile_size_check[OF c, of "''/tmp/a.bin''" "''0''"]
    by simp
qed

text \<open>
  C9. When the final commit's response has been read, \<^verbatim>\<open>createFile\<close> returns the
  response's \<^verbatim>\<open>data.id\<close> if the result marker is \<^verbatim>\<open>ok\<close>, and otherwise an error made of
  the server's description. It returns an identifier exactly when the request could be
  built and sent, the response read, and the marker is \<^verbatim>\<open>ok\<close>.
\<close>

theorem createFile_result:
  "(json_Marshal env data = None \<and> commit_Do env parentId data = BodyRead r
      \<longrightarrow> snd (createFile env parentId data)
            = (if result r = ''ok'' then Returns (data_id r)
               else Fails (errors_New (description r))))
   \<and> ((\<exists>id. snd (createFile env parentId data) = Returns id)
        \<longleftrightarrow> json_Marshal env data = None
            \<and> (\<exists>r. commit_Do env parentId data = BodyRead r \<and> result r = ''ok''))"
  by (auto simp: createFile_def split: option.splits http_reply.splits)

theorem createFile_result_witness:
  "snd (createFile sample_env ''0'' (upload_manifest ''a.bin'' 5 ''x'' [])) = Returns ''file-1''
   \<and> snd (createFile (sample_env\<lparr>commit_Do := (\<lambda>parentId data.
                BodyRead \<lparr>result = ''error'', description = ''quota exceeded'', data_id = []\<rparr>)\<rparr>)
             ''0'' (upload_manifest ''a.bin'' 5 ''x'' []))
       = Fails (errors_New ''quota exceeded'')"
proof -
  let ?d = "upload_manifest ''a.bin'' 5 ''x'' []"
  let ?r1 = "\<lparr>result = ''ok'', description = [], data_id = ''file-1''\<rparr>"
  let ?r2 = "\<lparr>result = ''error'', description = ''quota exceeded'', data_id = []\<rparr>"
  let ?env2 = "sample_env\<lparr>commit_Do := (\<lambda>parentId data. BodyRead ?r2)\<rparr>"
  have h1: "json_Marshal sample_env ?d = None \<and> commit_Do sample_env ''0'' ?d = BodyRead ?r1"
    by (simp add: sample_env_def)
  have h2: "json_Marshal ?env2 ?d = None \<and> commit_Do ?env2 ''0'' ?d = BodyRead ?r2"
    by (simp add: sample_env_def)
  show ?thesis
    using createFile_result[of sample_env ?d "''0''" ?r1] h1
      createFile_result[of ?env2 ?d "''0''" ?r2] h2
    by simp
qed

text \<open>
  C8. Whenever the reply to the negotiation request carries a result marker other than
  \<^verbatim>\<open>ok\<close>, \<^verbatim>\<open>UploadFile\<close> fails with the error
  \<^verbatim>\<open>create file block failed, error: \<close> followed by the server's description, and its
  trace has neither a block transfer nor a call of the final commit.
\<close>

theorem negotiation_failure:
  assumes posted: "PostCreate tok uj \<in> set (fst (UploadFile env filePath parentId))"
    and reply: "postForm env tok uj = Inr resp"
    and marker: "nego_result resp \<noteq> ''ok''"
  shows "snd (UploadFile env filePath parentId)
           = Fails (errors_New (''create file block failed, error: '' @ nego_description resp))
       \<and> (\<forall>e\<in>set (fst (UploadFile env filePath parentId)). \<not> is_Transfer e \<and> \<not> is_Commit e)"
proof -
  from UploadFile_posted[OF posted] obtain s pre bs where
    fb: "file_blocks env s (FilePathHash env ''sha1'') = (pre, Returns bs)"
    and tr: "fst (UploadFile env filePath parentId) = HashPath ''sha1'' # pre @ [PostCreate tok uj]
           @ fst (negotiation_outcome env parentId (path_Base filePath) s (FilePathHash env ''sha1'')
                    (postForm env tok uj))"
    and res: "snd (UploadFile env filePath parentId)
           = snd (negotiation_outcome env parentId (path_Base filePath) s (FilePathHash env ''sha1'')
                    (postForm env tok uj))"
    by blast
  have out: "negotiation_outcome env parentId (path_Base filePath) s (FilePathHash env ''sha1'')
                    (postForm env tok uj)
      = ([], Fails (errors_New (''create file block failed, error: '' @ nego_description resp)))"
    using reply marker by (simp add: negotiation_outcome_def)
  have pre: "\<not> is_Transfer e \<and> \<not> is_Commit e" if "e \<in> set pre" for e
    using file_blocks_pre[OF fb that] by (cases e) auto
  show ?thesis
    using tr res out pre by auto
qed

theorem negotiation_failure_witness:
  "snd (UploadFile (sample_env\<lparr>postForm := (\<lambda>token data.
            Inr (sample_nego\<lparr>nego_result := ''error'', nego_description := ''no space''\<rparr>))\<rparr>)
          ''/tmp/a.bin'' ''0'')
     = Fails (errors_New ''create file block failed, error: no space'')
   \<and> list_all (\<lambda>e. \<not> is_Transfer e \<and> \<not> is_Commit e)
        (fst (UploadFile (sample_env\<lparr>postForm := (\<lambda>token data.
            Inr (sample_nego\<lparr>nego_result := ''error'', nego_description := ''no space''\<rparr>))\<rparr>)
          ''/tmp/a.bin'' ''0''))"
proof -
  let ?resp = "sample_nego\<lparr>nego_result := ''error'', nego_description := ''no space''\<rparr>"
  let ?env = "sample_env\<lparr>postForm := (\<lambda>token data. Inr ?resp)\<rparr>"
  let ?uj = "upload_manifest ''a.bin'' 5 ''sha1:file''
               [\<lparr>Blob = (), Sha1 = ''sha1:file'', Md5 = ''md5:file'', Size = 5\<rparr>]"
  have tr: "fst (UploadFile ?env ''/tmp/a.bin'' ''0'')
      = [HashPath ''sha1'', HashPath ''md5'', PostCreate ''token'' ?uj]"
    by (simp add: UploadFile_def sample_env_def sample_nego_def file_blocks_def ChunkSize_def
          negotiate_def negotiation_outcome_def and_then_def path_Base_def Let_def)
  have h1: "PostCreate ''token'' ?uj \<in> set (fst (UploadFile ?env ''/tmp/a.bin'' ''0''))"
    by (simp add: tr)
  have h2: "postForm ?env ''token'' ?uj = Inr ?resp" by simp
  have h3: "nego_result ?resp \<noteq> ''ok''" by simp
  show ?thesis
    using negotiation_failure[OF h1 h2 h3] by (simp add: list_all_iff)
qed

text \<open>
  C4. Whenever the reply to the negotiation request is \<^verbatim>\<open>ok\<close> and says that the file
  exists (\<^verbatim>\<open>data.storage.exists\<close>), the trace of \<^verbatim>\<open>UploadFile\<close> has no block transfer and
  exactly one call of the final commit, whose payload is the file name with the
  existing-upload reference (the upload id and the flag \<^verbatim>\<open>Exists\<close>) and nothing else; the
  outcome of \<^verbatim>\<open>UploadFile\<close> is the outcome of that commit.
\<close>

theorem file_exists_commit_only:
  assumes posted: "PostCreate tok uj \<in> set (fst (UploadFile env filePath parentId))"
    and reply: "postForm env tok uj = Inr resp"
    and marker: "nego_result resp = ''ok''"
    and existing: "storage_exists resp"
  shows "filter is_Transfer (fst (UploadFile env filePath parentId)) = []
       \<and> filter is_Commit (fst (UploadFile env filePath parentId))
           = [Commit parentId
                \<lparr>Content = \<lparr>Name = path_Base filePath,
                   Storage = UploadExistedStorage (storage_uploadId resp) True\<rparr>\<rparr>]
       \<and> snd (UploadFile env filePath parentId)
           = snd (createFile env parentId
                \<lparr>Content = \<lparr>Name = path_Base filePath,
                   Storage = UploadExistedStorage (storage_uploadId resp) True\<rparr>\<rparr>)"
proof -
  let ?d = "\<lparr>Content = \<lparr>Name = path_Base filePath,
                   Storage = UploadExistedStorage (storage_uploadId resp) True\<rparr>\<rparr>"
  from UploadFile_posted[OF posted] obtain s pre bs where
    fb: "file_blocks env s (FilePathHash env ''sha1'') = (pre, Returns bs)"
    and tr: "fst (UploadFile env filePath parentId) = HashPath ''sha1'' # pre @ [PostCreate tok uj]
           @ fst (negotiation_outcome env parentId (path_Base filePath) s (FilePathHash env ''sha1'')
                    (postForm env tok uj))"
    and res: "snd (UploadFile env filePath parentId)
           = snd (negotiation_outcome env parentId (path_Base filePath) s (FilePathHash env ''sha1'')
                    (postForm env tok uj))"
    by blast
  have out: "negotiation_outcome env parentId (path_Base filePath) s (FilePathHash env ''sha1'')
                    (postForm env tok uj)
      = createFile env parentId ?d"
    using reply marker existing by (simp add: negotiation_outcome_def after_negotiation_def)
  show ?thesis
    using tr res out file_blocks_pre_filter[OF fb] by (simp add: createFile_events)
qed

theorem file_exists_commit_only_witness:
  "filter is_Transfer (fst (UploadFile
       (sample_env\<lparr>postForm := (\<lambda>token data. Inr (sample_nego\<lparr>storage_exists := True\<rparr>))\<rparr>)
       ''/tmp/a.bin'' ''0'')) = []
   \<and> filter is_Commit (fst (UploadFile
       (sample_env\<lparr>postForm := (\<lambda>token data. Inr (sample_nego\<lparr>storage_exists := True\<rparr>))\<rparr>)
       ''/tmp/a.bin'' ''0''))
       = [Commit ''0'' \<lparr>Content = \<lparr>Name = ''a.bin'',
                                     Storage = UploadExistedStorage ''up-1'' True\<rparr>\<rparr>]
   \<and> snd (UploadFile
       (sample_env\<lparr>postForm := (\<lambda>token data. Inr (sample_nego\<lparr>storage_exists := True\<rparr>))\<rparr>)
       ''/tmp/a.bin'' ''0'') = Returns ''file-1''"
proof -
  let ?resp = "sample_nego\<lparr>storage_exists := True\<rparr>"
  let ?env = "sample_env\<lparr>postForm := (\<lambda>token data. Inr ?resp)\<rparr>"
  let ?uj = "upload_manifest ''a.bin'' 5 ''sha1:file''
               [\<lparr>Blob = (), Sha1 = ''sha1:file'', Md5 = ''md5:file'', Size = 5\<rparr>]"
  have h1: "PostCreate ''token'' ?uj \<in> set (fst (UploadFile ?env ''/tmp/a.bin'' ''0''))"
    by (simp add: UploadFile_def sample_env_def sample_nego_def file_blocks_def ChunkSize_def
          negotiate_def and_then_def path_Base_def Let_def split: prod.splits)
  have h2: "postForm ?env ''token'' ?uj = Inr ?resp" by simp
  have h3: "nego_result ?resp = ''ok''" by (simp add: sample_nego_def)
  have h4: "storage_exists ?resp" by simp
  have pb: "path_Base ''/tmp/a.bin'' = ''a.bin''" by (simp add: path_Base_def)
  show ?thesis
    using file_exists_commit_only[OF h1 h2 h3 h4]
    by (simp add: pb createFile_def sample_env_def sample_nego_def)
qed

text \<open>
  C10. For a file of at most \<open>ChunkSize\<close> bytes (and more than 0), the manifest sent has
  one \<^verbatim>\<open>BlockInfo\<close>, whose \<^verbatim>\<open>Sha1\<close> is the whole-file SHA-1 sent as the file-level digest
  and whose \<^verbatim>\<open>Size\<close> is the file size. The whole-file SHA-1 is computed once: the trace
  starts with that digest, the whole-file MD5 and the request, and no digest and no chunk
  read follows.
\<close>

theorem single_block_manifest:
  assumes "os_Stat env = Inr s" and "0 < s" and "s \<le> ChunkSize"
  shows "\<exists>rest. fst (UploadFile env filePath parentId)
           = [HashPath ''sha1'', HashPath ''md5'',
              PostCreate (ServiceToken env)
                \<lparr>Content = \<lparr>Name = path_Base filePath,
                   Storage = UploadStorage s (FilePathHash env ''sha1'')
                     (UploadKss [\<lparr>Blob = (), Sha1 = FilePathHash env ''sha1'',
                                   Md5 = FilePathHash env ''md5'', Size = s\<rparr>])
                     [] False\<rparr>\<rparr>] @ rest
         \<and> filter is_HashPath rest = [] \<and> filter is_ChunkRead rest = []"
proof -
  let ?sha = "FilePathHash env ''sha1''"
  let ?bs = "[\<lparr>Blob = (), Sha1 = ?sha, Md5 = FilePathHash env ''md5'', Size = s\<rparr>]"
  let ?R = "negotiation_outcome env parentId (path_Base filePath) s ?sha
              (postForm env (ServiceToken env) (upload_manifest (path_Base filePath) s ?sha ?bs))"
  have small: "s \<noteq> 0 \<and> \<not> s \<ge> 4 * 1024 * 1024 * 1024"
    using assms by (simp add: ChunkSize_def)
  have "fst (UploadFile env filePath parentId)
      = [HashPath ''sha1'', HashPath ''md5'',
         PostCreate (ServiceToken env) (upload_manifest (path_Base filePath) s ?sha ?bs)] @ fst ?R"
    using assms small
    by (simp add: UploadFile_def file_blocks_def negotiate_def Let_def and_then_fst_snd)
  moreover have "\<not> is_HashPath e \<and> \<not> is_ChunkRead e" if "e \<in> set (fst ?R)" for e
    using negotiation_outcome_events[OF that] by (cases e) auto
  ultimately show ?thesis
    by (simp add: upload_manifest_def filter_empty_conv)
qed

theorem single_block_manifest_witness:
  "\<exists>rest. fst (UploadFile sample_env ''/tmp/a.bin'' ''0'')
           = [HashPath ''sha1'', HashPath ''md5'',
              PostCreate ''token''
                \<lparr>Content = \<lparr>Name = ''a.bin'',
                   Storage = UploadStorage 5 ''sha1:file''
                     (UploadKss [\<lparr>Blob = (), Sha1 = ''sha1:file'',
                                   Md5 = ''md5:file'', Size = 5\<rparr>])
                     [] False\<rparr>\<rparr>] @ rest
         \<and> filter is_HashPath rest = [] \<and> filter is_ChunkRead rest = []"
proof -
  have h1: "os_Stat sample_env = Inr 5" by (simp add: sample_env_def)
  have h2: "(0::int) < 5" by simp
  have h3: "(5::int) \<le> ChunkSize" by (simp add: ChunkSize_def)
  have pb: "path_Base ''/tmp/a.bin'' = ''a.bin''" by (simp add: path_Base_def)
  have f: "ServiceToken sample_env = ''token''" "FilePathHash sample_env ''sha1'' = ''sha1:file''"
    "FilePathHash sample_env ''md5'' = ''md5:file''"
    by (simp_all add: sample_env_def)
  show ?thesis
    using single_block_manifest[OF h1 h2 h3, of "''/tmp/a.bin''" "''0''"]
    by (simp add: pb f)
qed

text \<open>
  C7. For a block whose negotiation entry has \<^verbatim>\<open>is_existed\<close> equal to 1, \<^verbatim>\<open>uploadBlock\<close>
  performs no effect at all and returns the entry's commit token. Hence, when every entry
  is flagged so, the upload loop performs no transfer and returns one token per entry, in
  the order of the entries; in \<^verbatim>\<open>UploadFile\<close> the trace then has no transfer, and the one
  commit carries exactly that token list.
\<close>

theorem existing_blocks_no_transfer:
  "(is_existed m = 1 \<longrightarrow>
      uploadBlock env k node fm (GjsonResult m) = ([], Returns [''commit_meta'' \<mapsto> commit_meta m]))
   \<and> ((\<forall>m\<in>set blocks. is_existed m = 1) \<longrightarrow>
      upload_loop env node fm 0 blocks []
        = ([], Returns (map (\<lambda>m. [''commit_meta'' \<mapsto> commit_meta m]) blocks)))
   \<and> (PostCreate tok uj \<in> set (fst (UploadFile env filePath parentId))
        \<and> postForm env tok uj = Inr resp \<and> nego_result resp = ''ok''
        \<and> \<not> storage_exists resp \<and> node_urls resp = node # others \<and> node \<noteq> []
        \<and> os_Open env = None \<and> (\<forall>m\<in>set (block_metas resp). is_existed m = 1) \<longrightarrow>
      filter is_Transfer (fst (UploadFile env filePath parentId)) = []
      \<and> (\<exists>fileSize fileSha1.
            filter is_Commit (fst (UploadFile env filePath parentId))
              = [Commit parentId
                   \<lparr>Content = \<lparr>Name = path_Base filePath,
                      Storage = UploadStorage fileSize fileSha1
                        (Kss ''OK'' (node_urls resp) (secure_key resp) (contentCacheKey resp)
                           (file_meta resp)
                           (map (\<lambda>m. [''commit_meta'' \<mapsto> commit_meta m]) (block_metas resp)))
                        (storage_uploadId resp) False\<rparr>\<rparr>]))"
proof (intro conjI impI)
  assume "is_existed m = 1"
  then show "uploadBlock env k node fm (GjsonResult m)
      = ([], Returns [''commit_meta'' \<mapsto> commit_meta m])"
    by (simp add: uploadBlock_def)
next
  assume "\<forall>m\<in>set blocks. is_existed m = 1"
  from upload_loop_existed[OF this, of env node fm 0 "[]"]
  show "upload_loop env node fm 0 blocks []
      = ([], Returns (map (\<lambda>m. [''commit_meta'' \<mapsto> commit_meta m]) blocks))"
    by simp
next
  assume h: "PostCreate tok uj \<in> set (fst (UploadFile env filePath parentId))
        \<and> postForm env tok uj = Inr resp \<and> nego_result resp = ''ok''
        \<and> \<not> storage_exists resp \<and> node_urls resp = node # others \<and> node \<noteq> []
        \<and> os_Open env = None \<and> (\<forall>m\<in>set (block_metas resp). is_existed m = 1)"
  then have posted: "PostCreate tok uj \<in> set (fst (UploadFile env filePath parentId))"
    and all_existed: "\<forall>m\<in>set (block_metas resp). is_existed m = 1"
    by simp_all
  from UploadFile_posted[OF posted] obtain s pre bs where
    fb: "file_blocks env s (FilePathHash env ''sha1'') = (pre, Returns bs)"
    and tr: "fst (UploadFile env filePath parentId) = HashPath ''sha1'' # pre @ [PostCreate tok uj]
           @ fst (negotiation_outcome env parentId (path_Base filePath) s (FilePathHash env ''sha1'')
                    (postForm env tok uj))"
    by blast
  let ?d = "\<lparr>Content = \<lparr>Name = path_Base filePath,
                      Storage = UploadStorage s (FilePathHash env ''sha1'')
                        (Kss ''OK'' (node_urls resp) (secure_key resp) (contentCacheKey resp)
                           (file_meta resp)
                           (map (\<lambda>m. [''commit_meta'' \<mapsto> commit_meta m]) (block_metas resp)))
                        (storage_uploadId resp) False\<rparr>\<rparr>"
  have loop: "upload_loop env node (file_meta resp) 0 (block_metas resp) []
      = ([], Returns (map (\<lambda>m. [''commit_meta'' \<mapsto> commit_meta m]) (block_metas resp)))"
    using upload_loop_existed[OF all_existed, of env node "file_meta resp" 0 "[]"] by simp
  have out: "negotiation_outcome env parentId (path_Base filePath) s (FilePathHash env ''sha1'')
                    (postForm env tok uj)
      = createFile env parentId ?d"
    using h loop
    by (simp add: negotiation_outcome_def after_negotiation_def and_then_fst_snd)
  have t: "filter is_Transfer (fst (UploadFile env filePath parentId)) = []"
    and c: "filter is_Commit (fst (UploadFile env filePath parentId)) = [Commit parentId ?d]"
    using tr out file_blocks_pre_filter[OF fb] by (simp_all add: createFile_events)
  show "filter is_Transfer (fst (UploadFile env filePath parentId)) = []" by (rule t)
  show "\<exists>fileSize fileSha1.
            filter is_Commit (fst (UploadFile env filePath parentId))
              = [Commit parentId
                   \<lparr>Content = \<lparr>Name = path_Base filePath,
                      Storage = UploadStorage fileSize fileSha1
                        (Kss ''OK'' (node_urls resp) (secure_key resp) (contentCacheKey resp)
                           (file_meta resp)
                           (map (\<lambda>m. [''commit_meta'' \<mapsto> commit_meta m]) (block_metas resp)))
                        (storage_uploadId resp) False\<rparr>\<rparr>]"
    using c by blast
qed

theorem existing_blocks_no_transfer_witness:
  "uploadBlock sample_env_existed 0 ''https://node'' ''fm''
       (GjsonResult \<lparr>is_existed = 1, commit_meta = ''c0'', block_meta = []\<rparr>)
     = ([], Returns [''commit_meta'' \<mapsto> ''c0''])
   \<and> upload_loop sample_env_existed ''https://node'' ''fm'' 0
        [\<lparr>is_existed = 1, commit_meta = ''c0'', block_meta = []\<rparr>,
         \<lparr>is_existed = 1, commit_meta = ''c1'', block_meta = []\<rparr>] []
     = ([], Returns [[''commit_meta'' \<mapsto> ''c0''], [''commit_meta'' \<mapsto> ''c1'']])
   \<and> filter is_Transfer (fst (UploadFile sample_env_existed ''/tmp/a.bin'' ''0'')) = []"
proof -
  let ?env = sample_env_existed
  let ?m0 = "\<lparr>is_existed = 1, commit_meta = ''c0'', block_meta = []\<rparr>"
  let ?m1 = "\<lparr>is_existed = 1, commit_meta = ''c1'', block_meta = []\<rparr>"
  let ?uj = "upload_manifest ''a.bin'' 4194305 ''sha1:file''
             [\<lparr>Blob = (), Sha1 = ''sha1:block'', Md5 = ''md5:block'', Size = 4194304\<rparr>,
              \<lparr>Blob = (), Sha1 = ''sha1:block'', Md5 = ''md5:block'', Size = 1\<rparr>]"
  have st: "os_Stat ?env = Inr 4194305"
    by (simp add: sample_env_existed_def sample_env2_def)
  have op: "os_OpenFile ?env = None"
    by (simp add: sample_env_existed_def sample_env2_def sample_env_def)
  have r0: "chunk_Read ?env 0 4194304 = Inr (replicate 4194304 1)"
    by (simp add: sample_env_existed_def sample_env2_def sample_env_def)
  have r1: "chunk_Read ?env 4194304 1 = Inr (replicate 1 1)"
    by (simp add: sample_env_existed_def sample_env2_def sample_env_def)
  have f: "FileHash ?env = (\<lambda>b algo. algo @ '':block'')"
    "FilePathHash ?env = (\<lambda>algo. algo @ '':file'')" "ServiceToken ?env = ''token''"
    by (simp_all add: sample_env_existed_def sample_env2_def sample_env_def)
  note posted = sample2_posted[OF st op r0 r1 f, of "''0''"]
  have h2: "postForm ?env ''token'' ?uj = Inr sample_nego_existed"
    by (simp add: sample_env_existed_def)
  have h3: "nego_result sample_nego_existed = ''ok''"
    by (simp add: sample_nego_existed_def sample_nego_def)
  have h4: "\<not> storage_exists sample_nego_existed"
    by (simp add: sample_nego_existed_def sample_nego_def)
  have h5: "node_urls sample_nego_existed = ''https://node'' # []"
    by (simp add: sample_nego_existed_def sample_nego_def)
  have h6: "''https://node'' \<noteq> []" by simp
  have h7: "os_Open ?env = None"
    by (simp add: sample_env_existed_def sample_env2_def sample_env_def)
  have h8: "\<forall>m\<in>set (block_metas sample_nego_existed). is_existed m = 1"
    by (simp add: sample_nego_existed_def)
  have a: "is_existed ?m0 = 1" by simp
  have b: "\<forall>m\<in>set [?m0, ?m1]. is_existed m = 1" by simp
  note inst = existing_blocks_no_transfer[where m = ?m0 and env = ?env and k = 0
      and node = "''https://node''" and fm = "''fm''" and blocks = "[?m0, ?m1]"
      and tok = "''token''" and uj = ?uj and filePath = "''/tmp/a.bin''" and parentId = "''0''"
      and resp = sample_nego_existed and others = "[]"]
  have p1: "uploadBlock ?env 0 ''https://node'' ''fm'' (GjsonResult ?m0)
     = ([], Returns [''commit_meta'' \<mapsto> ''c0''])"
    using inst[THEN conjunct1, THEN mp, OF a] by simp
  have p2: "upload_loop ?env ''https://node'' ''fm'' 0 [?m0, ?m1] []
     = ([], Returns [[''commit_meta'' \<mapsto> ''c0''], [''commit_meta'' \<mapsto> ''c1'']])"
    using inst[THEN conjunct2, THEN conjunct1, THEN mp, OF b] by simp
  have p3: "filter is_Transfer (fst (UploadFile ?env ''/tmp/a.bin'' ''0'')) = []"
    using inst[THEN conjunct2, THEN conjunct2, THEN mp, THEN conjunct1]
      posted h2 h3 h4 h5 h6 h7 h8 by blast
  from p1 p2 p3 show ?thesis by blast
qed

text \<open>
  C6. The claim is that an empty \<^verbatim>\<open>node_urls\<close> list makes \<^verbatim>\<open>UploadFile\<close> fail with the
  error \<^verbatim>\<open>no available url node\<close>. The code evaluates \<^verbatim>\<open>nodeUrls[0]\<close> before it tests the
  address, so on an empty list it panics with an index out of range; the error is
  returned only when the first address is the empty string. The theorem evaluates
  \<^verbatim>\<open>UploadFile\<close> on the sample file with a response whose \<^verbatim>\<open>node_urls\<close> is empty.
\<close>

theorem empty_node_urls_panics:
  "UploadFile (sample_env\<lparr>postForm := (\<lambda>token data. Inr (sample_nego\<lparr>node_urls := []\<rparr>))\<rparr>)
     ''/tmp/a.bin'' ''0''
   = ([HashPath ''sha1'', HashPath ''md5'',
       PostCreate ''token''
         \<lparr>Content = \<lparr>Name = ''a.bin'',
            Storage = UploadStorage 5 ''sha1:file''
              (UploadKss [\<lparr>Blob = (), Sha1 = ''sha1:file'', Md5 = ''md5:file'', Size = 5\<rparr>])
              [] False\<rparr>\<rparr>],
      Panics IndexOutOfRange)"
  by (simp add: UploadFile_def sample_env_def sample_nego_def file_blocks_def ChunkSize_def
        negotiate_def negotiation_outcome_def after_negotiation_def upload_manifest_def
        and_then_def path_Base_def Let_def)




text \<open>
  C2. The claim is that \<^verbatim>\<open>getFileBlocks\<close> fails when the read of a block fails. The loop
  of the code takes \<^verbatim>\<open>continue\<close> on a read error: the block is left out and the function
  returns the shorter list with a nil error. The theorem evaluates \<^verbatim>\<open>getFileBlocks\<close> on a
  file of \<open>ChunkSize + 1\<close> bytes whose first read fails: both reads are attempted, and
  the list returned holds only the second block.
\<close>

theorem getFileBlocks_skips_failed_read:
  "getFileBlocks sample_env_read_failure 4194305
     = ([ChunkRead 0 4194304, ChunkRead 4194304 1],
        Returns [\<lparr>Blob = (), Sha1 = ''sha1:block'', Md5 = ''md5:block'', Size = 1\<rparr>])"
proof -
  let ?env = sample_env_read_failure
  have op: "os_OpenFile ?env = None"
    by (simp add: sample_env_read_failure_def sample_env2_def sample_env_def)
  have r0: "chunk_Read ?env 0 4194304 = Inl ''input/output error''"
    by (simp add: sample_env_read_failure_def)
  have r1: "chunk_Read ?env 4194304 1 = Inr [1]"
    by (simp add: sample_env_read_failure_def)
  have f: "FileHash ?env = (\<lambda>b algo. algo @ '':block'')"
    by (simp add: sample_env_read_failure_def sample_env2_def sample_env_def)
  show ?thesis
    by (simp add: getFileBlocks_first_read_fails[OF op r0 r1] f)
qed



end
